theory Spec2Isabelle
  imports Main
begin

section \<open>The Binance.us CSV input plugin (dali/plugin/input/csv/binance.py)\<close>

text \<open>
  The plugin reads a transaction export, row by row, and turns each row into at most one
  ledger transaction. This theory embeds \<open>InputPlugin.__init__\<close> and
  \<open>InputPlugin.load\<close>.

  What lies outside the file is kept abstract and named as such:
  \<^item> the csv reader: a file is the list of rows the reader yields, each row a list of
    fields;
  \<^item> the file system: a map from paths to such files (an absent path cannot be opened);
  \<^item> the logger: the calls made to it, in order, each with its level, format string and
    arguments (the log survives an exception, so it is returned beside the result);
  \<^item> the transaction classes \<open>InTransaction\<close>, \<open>IntraTransaction\<close> and
    \<open>OutTransaction\<close>: the source calls them with a dictionary of keyword arguments,
    and a transaction is the class together with that dictionary; their own argument
    validation belongs to the ledger library and is not part of this file.

  A character stands for the code point of the same number (0 to 255).
\<close>

subsection \<open>Python strings and dictionaries\<close>

text \<open>\<open>str.isspace\<close> on one character, for the code points below 256.\<close>

definition isspace :: "char \<Rightarrow> bool" where
  "isspace c \<longleftrightarrow> c \<in> set [CHR 0x09, CHR 0x0A, CHR 0x0B, CHR 0x0C, CHR 0x0D,
     CHR 0x1C, CHR 0x1D, CHR 0x1E, CHR 0x1F, CHR 0x20, CHR 0x85, CHR 0xA0]"

text \<open>\<open>s.strip()\<close>: leading and trailing whitespace removed.\<close>

definition strip :: "string \<Rightarrow> string" where
  "strip s = rev (dropWhile isspace (rev (dropWhile isspace s)))"

text \<open>\<open>d.join(xs)\<close>.\<close>

fun join :: "string \<Rightarrow> string list \<Rightarrow> string" where
  "join d [] = []"
| "join d [x] = x"
| "join d (x # y # ys) = x @ d @ join d (y # ys)"

text \<open>
  A dictionary with string keys and values, in insertion order. \<open>a | b\<close> keeps the keys
  of \<open>a\<close> in place, with the value of \<open>b\<close> where \<open>b\<close> has the key too, followed by
  the keys only \<open>b\<close> has.
\<close>

type_synonym dict = "(string \<times> string) list"

definition dict_union :: "dict \<Rightarrow> dict \<Rightarrow> dict" where
  "dict_union a b =
     map (\<lambda>(k, v). (k, case map_of b k of Some v' \<Rightarrow> v' | None \<Rightarrow> v)) a
     @ filter (\<lambda>(k, v). map_of a k = None) b"

subsection \<open>Errors and indexing\<close>

text \<open>
  The exceptions \<open>load\<close> can raise by itself: \<open>open\<close> on a path that cannot be read,
  \<open>next\<close> on a reader with no header row, and \<open>line[i]\<close> past the end of a row.
\<close>

datatype error = OSError | StopIteration | IndexError

text \<open>\<open>xs[i]\<close> for an index that is not negative.\<close>

definition index :: "'a list \<Rightarrow> nat \<Rightarrow> error + 'a" where
  "index xs i = (if i < length xs then Inr (xs ! i) else Inl IndexError)"

text \<open>Sequencing: an exception skips the rest.\<close>

definition and_then :: "error + 'a \<Rightarrow> ('a \<Rightarrow> error + 'b) \<Rightarrow> error + 'b" where
  "and_then m f = (case m of Inl e \<Rightarrow> Inl e | Inr x \<Rightarrow> f x)"

subsection \<open>The logger\<close>

datatype level = DEBUG | ERROR

datatype log_arg = Str string | StrList "string list"

datatype log_call = LogCall level string "log_arg list"

subsection \<open>Constants of the module and of the class\<close>

definition CRYPTO_DEPOSIT :: string where "CRYPTO_DEPOSIT = ''Crypto Deposit''"
definition SELL_TYPE :: string where "SELL_TYPE = ''Sell''"
definition BUY_TYPE :: string where "BUY_TYPE = ''Buy''"
definition CRYPTO_WITHDRAWAL :: string where "CRYPTO_WITHDRAWAL = ''Crypto Withdrawal''"
definition USD_DEPOSIT :: string where "USD_DEPOSIT = ''USD Deposit''"
definition REFERRAL_COMMISSION :: string where "REFERRAL_COMMISSION = ''Referral Commission''"
definition STAKING_REWARDS :: string where "STAKING_REWARDS = ''Staking Rewards''"
definition OTHERS :: string where "OTHERS = ''Others''"

definition BINANCE :: string where "BINANCE = ''Binance.us''"

definition TIMESTAMP_INDEX :: nat where "TIMESTAMP_INDEX = 1"
definition TRANSACTION_CATEGORY_INDEX :: nat where "TRANSACTION_CATEGORY_INDEX = 2"
definition TRANSACTION_TYPE_INDEX :: nat where "TRANSACTION_TYPE_INDEX = 3"
definition TRANSACTION_ID_INDEX :: nat where "TRANSACTION_ID_INDEX = 5"
definition CURRENCY_INDEX :: nat where "CURRENCY_INDEX = 6"
definition BASE_ASSET_INDEX :: nat where "BASE_ASSET_INDEX = 9"
definition BASE_ASSET_AMOUNT_INDEX :: nat where "BASE_ASSET_AMOUNT_INDEX = 10"
definition BASE_ASSET_AMOUNT_SPOT_PRICE_INDEX :: nat where
  "BASE_ASSET_AMOUNT_SPOT_PRICE_INDEX = 11"
definition PRIMARY_ASSET_AMOUNT :: nat where "PRIMARY_ASSET_AMOUNT = 7"
definition PRIMARY_ASSET_SPOT_PRICE :: nat where "PRIMARY_ASSET_SPOT_PRICE = 8"

definition DELIMITER :: string where "DELIMITER = '',''"

datatype Keyword = BUY | INCOME | INTEREST | SELL | UNKNOWN

text \<open>
  Modelled from the spec: \<open>Keyword.X.value\<close> of \<open>dali.configuration\<close>, which is not
  in this file. The spec names the classification tags buy, income and interest and the
  placeholder "unknown"; \<open>SELL\<close> occurs only in the branch for sales, whose tag the spec
  does not spell out.
\<close>

fun Keyword_value :: "Keyword \<Rightarrow> string" where
  "Keyword_value BUY = ''buy''"
| "Keyword_value INCOME = ''income''"
| "Keyword_value INTEREST = ''interest''"
| "Keyword_value SELL = ''sell''"
| "Keyword_value UNKNOWN = ''unknown''"

subsection \<open>Transactions\<close>

datatype AbstractTransaction =
    InTransaction dict
  | IntraTransaction dict
  | OutTransaction dict

text \<open>The keyword argument a transaction was built with, if it was given.\<close>

fun kwarg :: "AbstractTransaction \<Rightarrow> string \<Rightarrow> string option" where
  "kwarg (InTransaction d) k = map_of d k"
| "kwarg (IntraTransaction d) k = map_of d k"
| "kwarg (OutTransaction d) k = map_of d k"

subsection \<open>The plugin\<close>

text \<open>
  \<open>ISSUES_URL\<close> is a class attribute inherited from \<open>AbstractInputPlugin\<close>, which is not
  in this file: it is a field whose value the instantiation supplies.
\<close>

record InputPlugin =
  ISSUES_URL :: string
  account_holder :: string
  native_fiat :: "string option"
  transaction_csv_file :: string
  logger :: string

definition init :: "string \<Rightarrow> string \<Rightarrow> string \<Rightarrow> string option \<Rightarrow> InputPlugin" where
  "init issues_url holder csv_file fiat =
     \<lparr>ISSUES_URL = issues_url, account_holder = holder, native_fiat = fiat,
      transaction_csv_file = csv_file, logger = BINANCE @ ''/'' @ holder\<rparr>"

text \<open>
  The body of the loop of \<open>load\<close> for one row: the log and the result list before, the
  log after, and either the exception raised or the result list after.
\<close>

fun loop_body ::
  "InputPlugin \<Rightarrow> string list \<Rightarrow> log_call list \<times> AbstractTransaction list
     \<Rightarrow> log_call list \<times> (error + AbstractTransaction list)" where
  "loop_body self line (lg, result) =
     (let raw_data = join DELIMITER line;
          lg = lg @ [LogCall DEBUG ''Transaction: %s'' [Str raw_data]];
          outcome =
            and_then (index line TRANSACTION_ID_INDEX) (\<lambda>f5. let transaction_id = strip f5 in
            and_then (index line TRANSACTION_TYPE_INDEX) (\<lambda>f3. let transaction_type = strip f3 in
            and_then (index line TRANSACTION_CATEGORY_INDEX) (\<lambda>f2. let category = strip f2 in
            and_then (index line CURRENCY_INDEX) (\<lambda>f6. let currency = strip f6 in
            and_then (index line TIMESTAMP_INDEX) (\<lambda>f1.
              let timestamp_with_timezone = strip f1 @ '' -00:00'';
                  common_params =
                    [(''plugin'', BINANCE),
                     (''unique_id'', transaction_id),
                     (''raw_data'', raw_data),
                     (''timestamp'', timestamp_with_timezone),
                     (''notes'', category @ '' - '' @ transaction_type)]
              in
              if transaction_type \<in> set [REFERRAL_COMMISSION, STAKING_REWARDS] then
                let granular_transaction_type =
                      (if transaction_type = REFERRAL_COMMISSION then INCOME else INTEREST)
                in
                and_then (index line CURRENCY_INDEX) (\<lambda>g6. let currency = strip g6 in
                and_then (index line PRIMARY_ASSET_SPOT_PRICE) (\<lambda>f8.
                and_then (index line PRIMARY_ASSET_AMOUNT) (\<lambda>f7.
                  Inr ([], result @ [InTransaction (dict_union common_params
                    [(''asset'', currency),
                     (''exchange'', BINANCE),
                     (''holder'', account_holder self),
                     (''transaction_type'', Keyword_value granular_transaction_type),
                     (''spot_price'', strip f8),
                     (''crypto_in'', strip f7),
                     (''fiat_fee'', ''0'')])]))))
              else if transaction_type = CRYPTO_DEPOSIT then
                and_then (index line CURRENCY_INDEX) (\<lambda>g6. let currency = strip g6 in
                and_then (index line PRIMARY_ASSET_AMOUNT) (\<lambda>f7.
                and_then (index line PRIMARY_ASSET_SPOT_PRICE) (\<lambda>f8.
                  Inr ([], result @ [IntraTransaction (dict_union common_params
                    [(''asset'', currency),
                     (''crypto_sent'', ''0''),
                     (''crypto_received'', strip f7),
                     (''spot_price'', strip f8),
                     (''from_exchange'', Keyword_value UNKNOWN),
                     (''from_holder'', Keyword_value UNKNOWN),
                     (''to_exchange'', BINANCE),
                     (''to_holder'', account_holder self)])]))))
              else if transaction_type = CRYPTO_WITHDRAWAL then
                and_then (index line PRIMARY_ASSET_AMOUNT) (\<lambda>f7.
                and_then (index line PRIMARY_ASSET_SPOT_PRICE) (\<lambda>f8.
                  Inr ([], result @ [IntraTransaction (dict_union common_params
                    [(''crypto_received'', ''0''),
                     (''asset'', currency),
                     (''crypto_sent'', strip f7),
                     (''spot_price'', strip f8),
                     (''from_exchange'', BINANCE),
                     (''from_holder'', account_holder self),
                     (''to_exchange'', Keyword_value UNKNOWN),
                     (''to_holder'', Keyword_value UNKNOWN)])])))
              else if transaction_type \<in> set [BUY_TYPE, SELL_TYPE] then
                and_then (index line BASE_ASSET_INDEX) (\<lambda>f9.
                and_then (index line BASE_ASSET_AMOUNT_INDEX) (\<lambda>f10.
                and_then (index line BASE_ASSET_AMOUNT_SPOT_PRICE_INDEX) (\<lambda>f11.
                and_then (index line BASE_ASSET_AMOUNT_SPOT_PRICE_INDEX) (\<lambda>g11.
                  Inr ([], result @ [InTransaction (dict_union common_params
                    [(''exchange'', BINANCE),
                     (''holder'', account_holder self),
                     (''transaction_type'', Keyword_value BUY),
                     (''asset'', strip f9),
                     (''crypto_in'', strip f10),
                     (''spot_price'', strip f11),
                     (''crypto_fee'', strip g11)])])))))
              else if transaction_type = SELL_TYPE then
                and_then (index line BASE_ASSET_INDEX) (\<lambda>f9.
                and_then (index line BASE_ASSET_AMOUNT_INDEX) (\<lambda>f10.
                and_then (index line BASE_ASSET_AMOUNT_SPOT_PRICE_INDEX) (\<lambda>f11.
                and_then (index line BASE_ASSET_AMOUNT_SPOT_PRICE_INDEX) (\<lambda>g11.
                  Inr ([], result @ [OutTransaction (dict_union common_params
                    [(''exchange'', BINANCE),
                     (''holder'', account_holder self),
                     (''transaction_type'', Keyword_value SELL),
                     (''assets'', strip f9),
                     (''crypto_out_no_fee'', strip f10),
                     (''spot_price'', strip f11),
                     (''crypto_fee'', strip g11)])])))))
              else if transaction_type = USD_DEPOSIT then
                Inr ([LogCall DEBUG ''Skipping USD deposit %s'' [Str raw_data]], result)
              else
                Inr ([LogCall ERROR
                        ''Unsupported transaction type (skipping): %s. Please open an issue at %s''
                        [Str raw_data, Str (ISSUES_URL self)]], result))))))
      in (case outcome of
            Inl e \<Rightarrow> (lg, Inl e)
          | Inr (lg', result') \<Rightarrow> (lg @ lg', Inr result')))"

declare loop_body.simps [simp del]

text \<open>The loop over the data rows: an exception in one row ends it.\<close>

fun for_lines ::
  "InputPlugin \<Rightarrow> string list list \<Rightarrow> log_call list \<times> AbstractTransaction list
     \<Rightarrow> log_call list \<times> (error + AbstractTransaction list)" where
  "for_lines self [] st = (fst st, Inr (snd st))"
| "for_lines self (line # lines) st =
     (case loop_body self line st of
        (lg, Inl e) \<Rightarrow> (lg, Inl e)
      | (lg, Inr result) \<Rightarrow> for_lines self lines (lg, result))"

text \<open>
  \<open>load\<close>: open the file, take the header row off the reader, log it, and run the loop
  from an empty result list.
\<close>

definition load ::
  "InputPlugin \<Rightarrow> (string \<rightharpoonup> string list list)
     \<Rightarrow> log_call list \<times> (error + AbstractTransaction list)" where
  "load self fs =
     (case fs (transaction_csv_file self) of
        None \<Rightarrow> ([], Inl OSError)
      | Some [] \<Rightarrow> ([], Inl StopIteration)
      | Some (header # lines) \<Rightarrow>
          for_lines self lines ([LogCall DEBUG ''Header: %s'' [StrList header]], []))"

subsection \<open>Notions used to state the properties\<close>

text \<open>
  The number of fields a row must have for its rule to read all its positions: every row
  is read up to index 6 before its type is looked at, the rules for commissions, rewards,
  deposits and withdrawals read up to index 8, and the rule for trades up to index 11.
\<close>

definition required_fields :: "string list \<Rightarrow> nat" where
  "required_fields line =
     (if length line < 7 then 7
      else let transaction_type = strip (line ! TRANSACTION_TYPE_INDEX) in
        if transaction_type \<in> set [REFERRAL_COMMISSION, STAKING_REWARDS,
                                    CRYPTO_DEPOSIT, CRYPTO_WITHDRAWAL] then 9
        else if transaction_type \<in> set [BUY_TYPE, SELL_TYPE] then 12
        else 7)"

text \<open>
  The transactions one row contributes: what the loop body appends when it is run on the
  row with nothing logged and nothing collected yet (nothing if it raises).
\<close>

definition row_records :: "InputPlugin \<Rightarrow> string list \<Rightarrow> AbstractTransaction list" where
  "row_records self line =
     (case snd (loop_body self line ([], [])) of Inl e \<Rightarrow> [] | Inr result \<Rightarrow> result)"

subsection \<open>Sample rows\<close>

text \<open>Rows in the 21-column format of the export, and rows cut short.\<close>

definition example_plugin :: InputPlugin where
  "example_plugin = init ''https://example.org/issues'' ''bob'' ''binance.csv'' None"

definition staking_row :: "string list" where
  "staking_row =
     [''U1'', ''2022-01-01 10:00:00'', ''Earn'', ''Staking Rewards'', '''', ''TX1'',
      ''ADA'', ''5.0'', ''4.50'', '''', '''', '''', '''', '''', '''',
      '''', '''', '''', '''', '''', '''']"

definition usd_deposit_row :: "string list" where
  "usd_deposit_row =
     [''U1'', ''2022-01-02 08:00:00'', ''Distribution'', ''USD Deposit'', '''', ''TX2'',
      ''USD'', ''100.00'', ''100.00'', '''', '''', '''', '''', '''', '''',
      '''', '''', '''', '''', '''', '''']"

definition referral_row :: "string list" where
  "referral_row =
     [''U1'', ''2022-01-03 09:30:00'', ''Distribution'', ''Referral Commission'', '''', ''TX3'',
      ''BTC'', ''0.0001'', ''4.20'', '''', '''', '''', '''', '''', '''',
      '''', '''', '''', '''', '''', '''']"

definition deposit_row :: "string list" where
  "deposit_row =
     [''U1'', ''2022-01-04 12:00:00'', ''Deposit'', ''Crypto Deposit'', '''', ''TX4'',
      ''ETH'', ''1.5'', ''4500.00'', '''', '''', '''', '''', '''', '''',
      '''', '''', '''', '''', '''', '''']"

definition withdrawal_row :: "string list" where
  "withdrawal_row =
     [''U1'', ''2022-01-05 12:00:00'', ''Withdrawal'', ''Crypto Withdrawal'', '''', ''TX5'',
      ''ETH'', ''0.5'', ''1500.00'', '''', '''', '''', '''', '''', '''',
      '''', '''', '''', '''', '''', '''']"

definition buy_row :: "string list" where
  "buy_row =
     [''U1'', ''2022-01-06 14:00:00'', ''Spot Trading'', ''Buy'', ''ORD1'', ''TX6'',
      ''BTC'', ''0.01'', ''400.00'', ''BTC'', ''0.01'', ''400.00'', ''USD'', ''400.00'', ''400.00'',
      ''BNB'', ''0.001'', ''0.40'', '''', '''', '''']"

definition sell_row :: "string list" where
  "sell_row =
     [''U1'', ''2022-01-07 15:00:00'', ''Spot Trading'', ''Sell'', ''ORD2'', ''TX7'',
      ''BTC'', ''0.02'', ''800.00'', ''BTC'', ''0.02'', ''800.00'', ''USD'', ''800.00'', ''800.00'',
      ''BNB'', ''0.002'', ''0.80'', '''', '''', '''']"

definition eur_deposit_row :: "string list" where
  "eur_deposit_row =
     [''U1'', ''2022-01-08 08:00:00'', ''Distribution'', ''EUR Deposit'', '''', ''TX8'',
      ''EUR'', ''100.00'', ''110.00'', '''', '''', '''', '''', '''', '''',
      '''', '''', '''', '''', '''', '''']"

definition others_row :: "string list" where
  "others_row =
     [''U1'', ''2022-01-09 08:00:00'', ''Distribution'', ''Others'', '''', ''TX9'',
      ''BNB'', ''0.1'', ''30.00'', '''', '''', '''', '''', '''', '''',
      '''', '''', '''', '''', '''', '''']"

definition short_staking_row :: "string list" where
  "short_staking_row =
     [''U1'', ''2022-01-10 10:00:00'', ''Earn'', ''Staking Rewards'', '''', ''TX10'',
      ''ADA'', ''5.0'']"

definition short_usd_deposit_row :: "string list" where
  "short_usd_deposit_row =
     [''U1'', ''2022-01-11 08:00:00'', ''Distribution'', ''USD Deposit'', '''']"

definition header_row :: "string list" where
  "header_row =
     [''User_Id'', ''Time'', ''Category'', ''Operation'', ''Order_Id'', ''Transaction_Id'',
      ''Primary_Asset'', ''Realized_Amount_For_Primary_Asset'',
      ''Realized_Amount_For_Primary_Asset_In_USD_Value'', ''Base_Asset'',
      ''Realized_Amount_For_Base_Asset'', ''Realized_Amount_For_Base_Asset_In_USD_Value'',
      ''Quote_Asset'', ''Realized_Amount_For_Quote_Asset'',
      ''Realized_Amount_For_Quote_Asset_In_USD_Value'', ''Fee_Asset'',
      ''Realized_Amount_For_Fee_Asset'', ''Realized_Amount_For_Fee_Asset_In_USD_Value'',
      ''Payment_Method'', ''Withdrawal_Method'', ''Additional_Note'']"

section \<open>Properties\<close>

subsection \<open>The loop body, branch by branch\<close>

lemmas index_defs = TIMESTAMP_INDEX_def TRANSACTION_CATEGORY_INDEX_def TRANSACTION_TYPE_INDEX_def
  TRANSACTION_ID_INDEX_def CURRENCY_INDEX_def BASE_ASSET_INDEX_def BASE_ASSET_AMOUNT_INDEX_def
  BASE_ASSET_AMOUNT_SPOT_PRICE_INDEX_def PRIMARY_ASSET_AMOUNT_def PRIMARY_ASSET_SPOT_PRICE_def

lemmas type_defs = CRYPTO_DEPOSIT_def SELL_TYPE_def BUY_TYPE_def CRYPTO_WITHDRAWAL_def
  USD_DEPOSIT_def REFERRAL_COMMISSION_def STAKING_REWARDS_def

lemmas body_defs = loop_body.simps Let_def index_defs type_defs DELIMITER_def BINANCE_def
  dict_union_def

lemma index_ok [simp]: "i < length xs \<Longrightarrow> index xs i = Inr (xs ! i)"
  by (simp add: index_def)

lemma index_fail [simp]: "\<not> i < length xs \<Longrightarrow> index xs i = Inl IndexError"
  by (simp add: index_def)

lemma and_then_Inr [simp]: "and_then (Inr x) f = f x"
  by (simp add: and_then_def)

lemma and_then_Inl [simp]: "and_then (Inl e) f = Inl e"
  by (simp add: and_then_def)

lemma loop_body_short:
  assumes "length line < 7"
  shows "loop_body self line (lg, result) =
     (lg @ [LogCall DEBUG ''Transaction: %s'' [Str (join '','' line)]], Inl IndexError)"
proof (cases "length line < 6")
  case True
  then show ?thesis
    by (simp add: body_defs)
next
  case False
  with assms have "length line = 6" by simp
  then show ?thesis
    by (simp add: body_defs)
qed

lemma loop_body_reward:
  assumes "9 \<le> length line"
    and "strip (line ! 3) = ''Referral Commission'' \<or> strip (line ! 3) = ''Staking Rewards''"
  shows "loop_body self line (lg, result) =
     (lg @ [LogCall DEBUG ''Transaction: %s'' [Str (join '','' line)]],
      Inr (result @ [InTransaction
        [(''plugin'', ''Binance.us''),
         (''unique_id'', strip (line ! 5)),
         (''raw_data'', join '','' line),
         (''timestamp'', strip (line ! 1) @ '' -00:00''),
         (''notes'', strip (line ! 2) @ '' - '' @ strip (line ! 3)),
         (''asset'', strip (line ! 6)),
         (''exchange'', ''Binance.us''),
         (''holder'', account_holder self),
         (''transaction_type'',
            Keyword_value (if strip (line ! 3) = ''Referral Commission'' then INCOME else INTEREST)),
         (''spot_price'', strip (line ! 8)),
         (''crypto_in'', strip (line ! 7)),
         (''fiat_fee'', ''0'')]]))"
  using assms by (auto simp add: body_defs)

lemma loop_body_deposit:
  assumes "9 \<le> length line" and "strip (line ! 3) = ''Crypto Deposit''"
  shows "loop_body self line (lg, result) =
     (lg @ [LogCall DEBUG ''Transaction: %s'' [Str (join '','' line)]],
      Inr (result @ [IntraTransaction
        [(''plugin'', ''Binance.us''),
         (''unique_id'', strip (line ! 5)),
         (''raw_data'', join '','' line),
         (''timestamp'', strip (line ! 1) @ '' -00:00''),
         (''notes'', strip (line ! 2) @ '' - '' @ strip (line ! 3)),
         (''asset'', strip (line ! 6)),
         (''crypto_sent'', ''0''),
         (''crypto_received'', strip (line ! 7)),
         (''spot_price'', strip (line ! 8)),
         (''from_exchange'', Keyword_value UNKNOWN),
         (''from_holder'', Keyword_value UNKNOWN),
         (''to_exchange'', ''Binance.us''),
         (''to_holder'', account_holder self)]]))"
  using assms by (simp add: body_defs)

lemma loop_body_withdrawal:
  assumes "9 \<le> length line" and "strip (line ! 3) = ''Crypto Withdrawal''"
  shows "loop_body self line (lg, result) =
     (lg @ [LogCall DEBUG ''Transaction: %s'' [Str (join '','' line)]],
      Inr (result @ [IntraTransaction
        [(''plugin'', ''Binance.us''),
         (''unique_id'', strip (line ! 5)),
         (''raw_data'', join '','' line),
         (''timestamp'', strip (line ! 1) @ '' -00:00''),
         (''notes'', strip (line ! 2) @ '' - '' @ strip (line ! 3)),
         (''crypto_received'', ''0''),
         (''asset'', strip (line ! 6)),
         (''crypto_sent'', strip (line ! 7)),
         (''spot_price'', strip (line ! 8)),
         (''from_exchange'', ''Binance.us''),
         (''from_holder'', account_holder self),
         (''to_exchange'', Keyword_value UNKNOWN),
         (''to_holder'', Keyword_value UNKNOWN)]]))"
  using assms by (simp add: body_defs)

lemma loop_body_trade:
  assumes "12 \<le> length line" and "strip (line ! 3) = ''Buy'' \<or> strip (line ! 3) = ''Sell''"
  shows "loop_body self line (lg, result) =
     (lg @ [LogCall DEBUG ''Transaction: %s'' [Str (join '','' line)]],
      Inr (result @ [InTransaction
        [(''plugin'', ''Binance.us''),
         (''unique_id'', strip (line ! 5)),
         (''raw_data'', join '','' line),
         (''timestamp'', strip (line ! 1) @ '' -00:00''),
         (''notes'', strip (line ! 2) @ '' - '' @ strip (line ! 3)),
         (''exchange'', ''Binance.us''),
         (''holder'', account_holder self),
         (''transaction_type'', Keyword_value BUY),
         (''asset'', strip (line ! 9)),
         (''crypto_in'', strip (line ! 10)),
         (''spot_price'', strip (line ! 11)),
         (''crypto_fee'', strip (line ! 11))]]))"
  using assms by (auto simp add: body_defs)

lemma loop_body_usd_deposit:
  assumes "7 \<le> length line" and "strip (line ! 3) = ''USD Deposit''"
  shows "loop_body self line (lg, result) =
     (lg @ [LogCall DEBUG ''Transaction: %s'' [Str (join '','' line)],
            LogCall DEBUG ''Skipping USD deposit %s'' [Str (join '','' line)]],
      Inr result)"
  using assms by (simp add: body_defs)

lemma loop_body_unsupported:
  assumes "7 \<le> length line"
    and "strip (line ! 3) \<notin> set [''Referral Commission'', ''Staking Rewards'', ''Crypto Deposit'',
           ''Crypto Withdrawal'', ''Buy'', ''Sell'', ''USD Deposit'']"
  shows "loop_body self line (lg, result) =
     (lg @ [LogCall DEBUG ''Transaction: %s'' [Str (join '','' line)],
            LogCall ERROR
              ''Unsupported transaction type (skipping): %s. Please open an issue at %s''
              [Str (join '','' line), Str (ISSUES_URL self)]],
      Inr result)"
  using assms by (simp add: body_defs)

lemma loop_body_malformed:
  assumes "length line < required_fields line"
  shows "loop_body self line (lg, result) =
     (lg @ [LogCall DEBUG ''Transaction: %s'' [Str (join '','' line)]], Inl IndexError)"
proof (cases "length line < 7")
  case True
  then show ?thesis by (rule loop_body_short)
next
  case False
  then have seven: "7 \<le> length line" by simp
  show ?thesis
  proof (cases "length line < 9")
    case True
    with seven assms show ?thesis
      by (cases "length line = 7"; cases "length line = 8")
         (auto simp add: required_fields_def body_defs split: if_splits)
  next
    case False
    with assms have "9 \<le> length line" "length line < 12"
      "strip (line ! 3) = ''Buy'' \<or> strip (line ! 3) = ''Sell''"
      by (auto simp add: required_fields_def Let_def index_defs type_defs split: if_splits)
    then show ?thesis
      by (cases "length line = 9"; cases "length line = 10"; cases "length line = 11")
         (auto simp add: body_defs)
  qed
qed

subsection \<open>Well-formed rows and the loop\<close>

lemma required_fields_ge7: "required_fields line \<le> length line \<Longrightarrow> 7 \<le> length line"
  by (simp add: required_fields_def Let_def split: if_splits)

lemma loop_body_wellformed:
  assumes wf: "required_fields line \<le> length line"
  shows "loop_body self line (lg, result) =
           (lg @ fst (loop_body self line ([], [])), Inr (result @ row_records self line))
         \<and> length (row_records self line) \<le> 1
         \<and> (\<forall>t \<in> set (row_records self line).
               kwarg t ''plugin'' = Some ''Binance.us''
             \<and> kwarg t ''unique_id'' = Some (strip (line ! 5))
             \<and> kwarg t ''raw_data'' = Some (join '','' line)
             \<and> kwarg t ''timestamp'' = Some (strip (line ! 1) @ '' -00:00'')
             \<and> kwarg t ''notes'' = Some (strip (line ! 2) @ '' - '' @ strip (line ! 3)))"
proof -
  from wf have seven: "7 \<le> length line" by (rule required_fields_ge7)
  consider (reward) "strip (line ! 3) = ''Referral Commission'' \<or> strip (line ! 3) = ''Staking Rewards''"
    | (deposit) "strip (line ! 3) = ''Crypto Deposit''"
    | (withdrawal) "strip (line ! 3) = ''Crypto Withdrawal''"
    | (trade) "strip (line ! 3) = ''Buy'' \<or> strip (line ! 3) = ''Sell''"
    | (usd) "strip (line ! 3) = ''USD Deposit''"
    | (unsupported) "strip (line ! 3) \<notin> set [''Referral Commission'', ''Staking Rewards'',
         ''Crypto Deposit'', ''Crypto Withdrawal'', ''Buy'', ''Sell'', ''USD Deposit'']"
    by auto
  then show ?thesis
  proof cases
    case reward
    with wf seven have "9 \<le> length line"
      by (auto simp add: required_fields_def Let_def index_defs type_defs)
    then show ?thesis
      using reward by (simp add: row_records_def loop_body_reward)
  next
    case deposit
    with wf seven have "9 \<le> length line"
      by (auto simp add: required_fields_def Let_def index_defs type_defs)
    then show ?thesis
      using deposit by (simp add: row_records_def loop_body_deposit)
  next
    case withdrawal
    with wf seven have "9 \<le> length line"
      by (auto simp add: required_fields_def Let_def index_defs type_defs)
    then show ?thesis
      using withdrawal by (simp add: row_records_def loop_body_withdrawal)
  next
    case trade
    with wf seven have "12 \<le> length line"
      by (auto simp add: required_fields_def Let_def index_defs type_defs)
    then show ?thesis
      using trade by (simp add: row_records_def loop_body_trade)
  next
    case usd
    then show ?thesis
      using seven by (simp add: row_records_def loop_body_usd_deposit)
  next
    case unsupported
    then show ?thesis
      using seven by (simp add: row_records_def loop_body_unsupported)
  qed
qed

lemma for_lines_records:
  "for_lines self rows (lg, result) = (lg', Inr result') \<Longrightarrow>
     (\<forall>line \<in> set rows. required_fields line \<le> length line)
     \<and> result' = result @ concat (map (row_records self) rows)"
proof (induction rows arbitrary: lg result)
  case Nil
  then show ?case by simp
next
  case (Cons line rows)
  show ?case
  proof (cases "length line < required_fields line")
    case True
    then have "for_lines self (line # rows) (lg, result) =
        (lg @ [LogCall DEBUG ''Transaction: %s'' [Str (join '','' line)]], Inl IndexError)"
      by (simp add: loop_body_malformed)
    with Cons.prems show ?thesis by simp
  next
    case False
    then have wf: "required_fields line \<le> length line" by simp
    have step: "for_lines self (line # rows) (lg, result) =
        for_lines self rows (lg @ fst (loop_body self line ([], [])), result @ row_records self line)"
      using loop_body_wellformed [OF wf, of self lg result] by simp
    with Cons.prems Cons.IH [of "lg @ fst (loop_body self line ([], []))" "result @ row_records self line"]
    show ?thesis using wf by simp
  qed
qed

lemma for_lines_malformed:
  "line \<in> set rows \<Longrightarrow> length line < required_fields line \<Longrightarrow>
     snd (for_lines self rows (lg, result)) = Inl IndexError"
proof (induction rows arbitrary: lg result)
  case Nil
  then show ?case by simp
next
  case (Cons r rows)
  show ?case
  proof (cases "length r < required_fields r")
    case True
    then show ?thesis by (simp add: loop_body_malformed)
  next
    case False
    then have wf: "required_fields r \<le> length r" by simp
    with Cons.prems have "line \<in> set rows" by auto
    then have "snd (for_lines self rows (lg @ fst (loop_body self r ([], [])), result @ row_records self r))
        = Inl IndexError"
      using Cons.prems(2) by (rule Cons.IH)
    then show ?thesis
      using loop_body_wellformed [OF wf, of self lg result] by simp
  qed
qed

lemma for_lines_wellformed:
  "\<forall>line \<in> set rows. required_fields line \<le> length line \<Longrightarrow>
     \<exists>lg'. for_lines self rows (lg, result) = (lg', Inr (result @ concat (map (row_records self) rows)))"
proof (induction rows arbitrary: lg result)
  case Nil
  then show ?case by simp
next
  case (Cons r rows)
  then have wf: "required_fields r \<le> length r" by simp
  from Cons.prems have rest: "\<forall>line \<in> set rows. required_fields line \<le> length line" by simp
  show ?case
    using Cons.IH [OF rest, of "lg @ fst (loop_body self r ([], []))" "result @ row_records self r"]
      loop_body_wellformed [OF wf, of self lg result] by simp
qed

section \<open>Commission and staking rows\<close>

text \<open>
  C2. A row whose transaction type is "Staking Rewards" or "Referral Commission" makes the
  loop of \<open>load\<close> append exactly one \<open>InTransaction\<close>, whatever was logged and collected
  before. Its asset is the primary-asset field (index 6) with surrounding whitespace
  removed, its fiat fee is the string "0", its amount and spot price are the fields at
  indices 7 and 8 (read the same way), and its transaction type is the keyword for interest
  on a staking row and for income on a commission row. The row has the nine fields this
  rule reads.
\<close>

theorem reward_row_inflow:
  assumes "9 \<le> length line"
    and "strip (line ! 3) = ''Staking Rewards'' \<or> strip (line ! 3) = ''Referral Commission''"
  shows "\<exists>kw. loop_body self line (lg, result) =
            (lg @ [LogCall DEBUG ''Transaction: %s'' [Str (join '','' line)]],
             Inr (result @ [InTransaction kw]))
     \<and> map_of kw ''asset'' = Some (strip (line ! 6))
     \<and> map_of kw ''fiat_fee'' = Some ''0''
     \<and> map_of kw ''crypto_in'' = Some (strip (line ! 7))
     \<and> map_of kw ''spot_price'' = Some (strip (line ! 8))
     \<and> map_of kw ''transaction_type'' =
           Some (Keyword_value (if strip (line ! 3) = ''Staking Rewards'' then INTEREST else INCOME))"
proof -
  from assms(2)
  have ty: "strip (line ! 3) = ''Referral Commission'' \<or> strip (line ! 3) = ''Staking Rewards''"
    by blast
  show ?thesis
    unfolding loop_body_reward [OF assms(1) ty] using assms(2) by auto
qed

text \<open>The two sample rows: the staking row of the export and a commission row.\<close>

theorem reward_row_inflow_witness:
  "(9 \<le> length staking_row \<and> strip (staking_row ! 3) = ''Staking Rewards''
     \<and> (\<exists>kw. loop_body example_plugin staking_row ([], []) =
            ([LogCall DEBUG ''Transaction: %s'' [Str (join '','' staking_row)]],
             Inr [InTransaction kw])
       \<and> map_of kw ''asset'' = Some ''ADA''
       \<and> map_of kw ''fiat_fee'' = Some ''0''
       \<and> map_of kw ''crypto_in'' = Some ''5.0''
       \<and> map_of kw ''spot_price'' = Some ''4.50''
       \<and> map_of kw ''transaction_type'' = Some ''interest''))
   \<and> (9 \<le> length referral_row \<and> strip (referral_row ! 3) = ''Referral Commission''
     \<and> (\<exists>kw. loop_body example_plugin referral_row ([], []) =
            ([LogCall DEBUG ''Transaction: %s'' [Str (join '','' referral_row)]],
             Inr [InTransaction kw])
       \<and> map_of kw ''asset'' = Some ''BTC''
       \<and> map_of kw ''fiat_fee'' = Some ''0''
       \<and> map_of kw ''crypto_in'' = Some ''0.0001''
       \<and> map_of kw ''spot_price'' = Some ''4.20''
       \<and> map_of kw ''transaction_type'' = Some ''income''))"
proof -
  have s: "9 \<le> length staking_row"
    "strip (staking_row ! 3) = ''Staking Rewards''" "strip (staking_row ! 6) = ''ADA''"
    "strip (staking_row ! 7) = ''5.0''" "strip (staking_row ! 8) = ''4.50''"
    by (simp_all add: staking_row_def strip_def isspace_def)
  have r: "9 \<le> length referral_row"
    "strip (referral_row ! 3) = ''Referral Commission''" "strip (referral_row ! 6) = ''BTC''"
    "strip (referral_row ! 7) = ''0.0001''" "strip (referral_row ! 8) = ''4.20''"
    by (simp_all add: referral_row_def strip_def isspace_def)
  show ?thesis
    using reward_row_inflow [of staking_row example_plugin "[]" "[]"]
      reward_row_inflow [of referral_row example_plugin "[]" "[]"]
    by (simp add: s r)
qed

section \<open>Crypto deposits and withdrawals\<close>

text \<open>
  C3. A row whose transaction type is "Crypto Deposit" (with the nine fields the rule
  reads) makes the loop of \<open>load\<close> append exactly one \<open>IntraTransaction\<close>: the amount
  sent is "0", the amount received is the primary-asset-amount field (index 7, surrounding
  whitespace removed), the receiving side is this exchange and the account holder, and the
  sending exchange and holder are the placeholder \<open>Keyword.UNKNOWN\<close>. For "Crypto
  Withdrawal" the roles are exchanged: the amount received is "0", the amount sent is the
  field at index 7, the sending side is this exchange and the holder, the receiving side
  the placeholder. The placeholder is a present, non-empty string.
\<close>

theorem crypto_transfer_rows:
  assumes "9 \<le> length line"
  shows "(strip (line ! 3) = ''Crypto Deposit'' \<longrightarrow>
           (\<exists>kw. loop_body self line (lg, result) =
                   (lg @ [LogCall DEBUG ''Transaction: %s'' [Str (join '','' line)]],
                    Inr (result @ [IntraTransaction kw]))
             \<and> map_of kw ''crypto_sent'' = Some ''0''
             \<and> map_of kw ''crypto_received'' = Some (strip (line ! 7))
             \<and> map_of kw ''to_exchange'' = Some ''Binance.us''
             \<and> map_of kw ''to_holder'' = Some (account_holder self)
             \<and> map_of kw ''from_exchange'' = Some (Keyword_value UNKNOWN)
             \<and> map_of kw ''from_holder'' = Some (Keyword_value UNKNOWN)))
       \<and> (strip (line ! 3) = ''Crypto Withdrawal'' \<longrightarrow>
           (\<exists>kw. loop_body self line (lg, result) =
                   (lg @ [LogCall DEBUG ''Transaction: %s'' [Str (join '','' line)]],
                    Inr (result @ [IntraTransaction kw]))
             \<and> map_of kw ''crypto_received'' = Some ''0''
             \<and> map_of kw ''crypto_sent'' = Some (strip (line ! 7))
             \<and> map_of kw ''from_exchange'' = Some ''Binance.us''
             \<and> map_of kw ''from_holder'' = Some (account_holder self)
             \<and> map_of kw ''to_exchange'' = Some (Keyword_value UNKNOWN)
             \<and> map_of kw ''to_holder'' = Some (Keyword_value UNKNOWN)))
       \<and> Keyword_value UNKNOWN \<noteq> ''''"
proof (intro conjI impI)
  assume "strip (line ! 3) = ''Crypto Deposit''"
  then show "\<exists>kw. loop_body self line (lg, result) =
                   (lg @ [LogCall DEBUG ''Transaction: %s'' [Str (join '','' line)]],
                    Inr (result @ [IntraTransaction kw]))
             \<and> map_of kw ''crypto_sent'' = Some ''0''
             \<and> map_of kw ''crypto_received'' = Some (strip (line ! 7))
             \<and> map_of kw ''to_exchange'' = Some ''Binance.us''
             \<and> map_of kw ''to_holder'' = Some (account_holder self)
             \<and> map_of kw ''from_exchange'' = Some (Keyword_value UNKNOWN)
             \<and> map_of kw ''from_holder'' = Some (Keyword_value UNKNOWN)"
    using assms by (simp add: loop_body_deposit)
next
  assume "strip (line ! 3) = ''Crypto Withdrawal''"
  then show "\<exists>kw. loop_body self line (lg, result) =
                   (lg @ [LogCall DEBUG ''Transaction: %s'' [Str (join '','' line)]],
                    Inr (result @ [IntraTransaction kw]))
             \<and> map_of kw ''crypto_received'' = Some ''0''
             \<and> map_of kw ''crypto_sent'' = Some (strip (line ! 7))
             \<and> map_of kw ''from_exchange'' = Some ''Binance.us''
             \<and> map_of kw ''from_holder'' = Some (account_holder self)
             \<and> map_of kw ''to_exchange'' = Some (Keyword_value UNKNOWN)
             \<and> map_of kw ''to_holder'' = Some (Keyword_value UNKNOWN)"
    using assms by (simp add: loop_body_withdrawal)
next
  show "Keyword_value UNKNOWN \<noteq> ''''" by simp
qed

text \<open>A deposit of 1.5 ETH and a withdrawal of 0.5 ETH by the holder bob.\<close>

theorem crypto_transfer_rows_witness:
  "(9 \<le> length deposit_row \<and> strip (deposit_row ! 3) = ''Crypto Deposit''
     \<and> (\<exists>kw. loop_body example_plugin deposit_row ([], []) =
                ([LogCall DEBUG ''Transaction: %s'' [Str (join '','' deposit_row)]],
                 Inr [IntraTransaction kw])
          \<and> map_of kw ''crypto_sent'' = Some ''0''
          \<and> map_of kw ''crypto_received'' = Some ''1.5''
          \<and> map_of kw ''to_exchange'' = Some ''Binance.us''
          \<and> map_of kw ''to_holder'' = Some ''bob''
          \<and> map_of kw ''from_exchange'' = Some ''unknown''
          \<and> map_of kw ''from_holder'' = Some ''unknown''))
   \<and> (9 \<le> length withdrawal_row \<and> strip (withdrawal_row ! 3) = ''Crypto Withdrawal''
     \<and> (\<exists>kw. loop_body example_plugin withdrawal_row ([], []) =
                ([LogCall DEBUG ''Transaction: %s'' [Str (join '','' withdrawal_row)]],
                 Inr [IntraTransaction kw])
          \<and> map_of kw ''crypto_received'' = Some ''0''
          \<and> map_of kw ''crypto_sent'' = Some ''0.5''
          \<and> map_of kw ''from_exchange'' = Some ''Binance.us''
          \<and> map_of kw ''from_holder'' = Some ''bob''
          \<and> map_of kw ''to_exchange'' = Some ''unknown''
          \<and> map_of kw ''to_holder'' = Some ''unknown''))"
proof -
  have d: "9 \<le> length deposit_row" "strip (deposit_row ! 3) = ''Crypto Deposit''"
    "strip (deposit_row ! 7) = ''1.5''"
    by (simp_all add: deposit_row_def strip_def isspace_def)
  have w: "9 \<le> length withdrawal_row" "strip (withdrawal_row ! 3) = ''Crypto Withdrawal''"
    "strip (withdrawal_row ! 7) = ''0.5''"
    by (simp_all add: withdrawal_row_def strip_def isspace_def)
  have h: "account_holder example_plugin = ''bob''"
    by (simp add: example_plugin_def init_def)
  show ?thesis
    using crypto_transfer_rows [of deposit_row example_plugin "[]" "[]"]
      crypto_transfer_rows [of withdrawal_row example_plugin "[]" "[]"]
    by (simp add: d w h)
qed

section \<open>Trades\<close>

text \<open>
  C1. A row whose transaction type is "Sell" (with the twelve fields the rule reads) is
  caught by the rule for "Buy" and "Sell" together, before the branch for sales is
  reached: the loop of \<open>load\<close> appends one \<open>InTransaction\<close> whose transaction type is the
  keyword for a buy, whose asset, amount and spot price are the base-asset fields at
  indices 9, 10 and 11 (surrounding whitespace removed). The same row with "Buy" as its
  type gives a record that differs at most in the two arguments that quote the row, the
  raw data and the note. No \<open>OutTransaction\<close> comes out of the row.
\<close>

theorem sell_row_mapped_as_buy:
  assumes "12 \<le> length line" and "strip (line ! 3) = ''Sell''"
  shows "\<exists>kw kw'. loop_body self line (lg, result) =
            (lg @ [LogCall DEBUG ''Transaction: %s'' [Str (join '','' line)]],
             Inr (result @ [InTransaction kw]))
     \<and> map_of kw ''transaction_type'' = Some (Keyword_value BUY)
     \<and> map_of kw ''asset'' = Some (strip (line ! 9))
     \<and> map_of kw ''crypto_in'' = Some (strip (line ! 10))
     \<and> map_of kw ''spot_price'' = Some (strip (line ! 11))
     \<and> loop_body self (line[3 := ''Buy'']) (lg, result) =
            (lg @ [LogCall DEBUG ''Transaction: %s'' [Str (join '','' (line[3 := ''Buy'']))]],
             Inr (result @ [InTransaction kw']))
     \<and> (\<forall>k. k \<noteq> ''raw_data'' \<and> k \<noteq> ''notes'' \<longrightarrow> map_of kw' k = map_of kw k)
     \<and> (\<forall>d. OutTransaction d \<notin> set (row_records self line))"
proof -
  have sell: "strip (line ! 3) = ''Buy'' \<or> strip (line ! 3) = ''Sell''"
    using assms(2) by simp
  have len: "12 \<le> length (line[3 := ''Buy''])"
    using assms(1) by simp
  have buy: "strip (line[3 := ''Buy''] ! 3) = ''Buy'' \<or> strip (line[3 := ''Buy''] ! 3) = ''Sell''"
    using assms(1) by (simp add: strip_def isspace_def)
  show ?thesis
    unfolding loop_body_trade [OF assms(1) sell] loop_body_trade [OF len buy] row_records_def
    by simp
qed

text \<open>A sale of 0.02 BTC for 800 USD comes out as a purchase of 0.02 BTC.\<close>

theorem sell_row_mapped_as_buy_witness:
  "12 \<le> length sell_row \<and> strip (sell_row ! 3) = ''Sell''
   \<and> (\<exists>kw. loop_body example_plugin sell_row ([], []) =
              ([LogCall DEBUG ''Transaction: %s'' [Str (join '','' sell_row)]],
               Inr [InTransaction kw])
        \<and> map_of kw ''transaction_type'' = Some ''buy''
        \<and> map_of kw ''asset'' = Some ''BTC''
        \<and> map_of kw ''crypto_in'' = Some ''0.02''
        \<and> map_of kw ''spot_price'' = Some ''800.00'')"
proof -
  have s: "12 \<le> length sell_row" "strip (sell_row ! 3) = ''Sell''"
    "strip (sell_row ! 9) = ''BTC''" "strip (sell_row ! 10) = ''0.02''"
    "strip (sell_row ! 11) = ''800.00''"
    by (simp_all add: sell_row_def strip_def isspace_def)
  from sell_row_mapped_as_buy [OF s(1) s(2), of example_plugin "[]" "[]"]
  obtain kw where "loop_body example_plugin sell_row ([], []) =
              ([LogCall DEBUG ''Transaction: %s'' [Str (join '','' sell_row)]],
               Inr [InTransaction kw])
        \<and> map_of kw ''transaction_type'' = Some ''buy''
        \<and> map_of kw ''asset'' = Some ''BTC''
        \<and> map_of kw ''crypto_in'' = Some ''0.02''
        \<and> map_of kw ''spot_price'' = Some ''800.00''"
    by (auto simp add: s)
  with s show ?thesis by blast
qed

text \<open>
  C4. For a row mapped by the rule for "Buy" and "Sell", the fee is not recorded as a
  fiat-denominated fee, as the specification has it: the purchase row below yields a transaction
  with no \<open>fiat_fee\<close> argument at all; the value of the base-asset USD column is passed
  as \<open>crypto_fee\<close>.
\<close>

theorem trade_fee_is_fiat_fee_counterexample:
  "row_records example_plugin buy_row =
     [InTransaction
        [(''plugin'', ''Binance.us''),
         (''unique_id'', ''TX6''),
         (''raw_data'', join '','' buy_row),
         (''timestamp'', ''2022-01-06 14:00:00 -00:00''),
         (''notes'', ''Spot Trading - Buy''),
         (''exchange'', ''Binance.us''),
         (''holder'', ''bob''),
         (''transaction_type'', ''buy''),
         (''asset'', ''BTC''),
         (''crypto_in'', ''0.01''),
         (''spot_price'', ''400.00''),
         (''crypto_fee'', ''400.00'')]]
   \<and> kwarg (hd (row_records example_plugin buy_row)) ''fiat_fee'' = None
   \<and> kwarg (hd (row_records example_plugin buy_row)) ''fiat_fee'' \<noteq> Some (strip (buy_row ! 11))
   \<and> kwarg (hd (row_records example_plugin buy_row)) ''crypto_fee'' = Some (strip (buy_row ! 11))"
proof -
  have b: "12 \<le> length buy_row" "strip (buy_row ! 3) = ''Buy'' \<or> strip (buy_row ! 3) = ''Sell''"
    by (simp_all add: buy_row_def strip_def isspace_def)
  have f: "strip (buy_row ! Suc 0) = ''2022-01-06 14:00:00''" "strip (buy_row ! 2) = ''Spot Trading''"
    "strip (buy_row ! 3) = ''Buy''" "strip (buy_row ! 5) = ''TX6''" "strip (buy_row ! 9) = ''BTC''"
    "strip (buy_row ! 10) = ''0.01''" "strip (buy_row ! 11) = ''400.00''"
    by (simp_all add: buy_row_def strip_def isspace_def)
  have h: "account_holder example_plugin = ''bob''"
    by (simp add: example_plugin_def init_def)
  show ?thesis
    unfolding row_records_def loop_body_trade [OF b] by (simp add: f h)
qed

text \<open>
  C4, as the code has it. For a row mapped by the rule for "Buy" and "Sell" (with the
  twelve fields the rule reads), the fee of the appended \<open>InTransaction\<close> is the
  base-asset USD-value field (index 11, surrounding whitespace removed), passed as the
  argument \<open>crypto_fee\<close>; no \<open>fiat_fee\<close> is passed. The fee-asset fields of the row
  (indices 15, 16 and 17) play no part: whatever is written there, the fee is the same.
\<close>

theorem trade_fee_is_base_asset_usd_value:
  assumes "12 \<le> length line"
    and "strip (line ! 3) = ''Buy'' \<or> strip (line ! 3) = ''Sell''"
  shows "\<exists>kw. loop_body self line (lg, result) =
            (lg @ [LogCall DEBUG ''Transaction: %s'' [Str (join '','' line)]],
             Inr (result @ [InTransaction kw]))
     \<and> map_of kw ''crypto_fee'' = Some (strip (line ! 11))
     \<and> map_of kw ''fiat_fee'' = None
     \<and> (\<forall>i \<in> {15, 16, 17}. \<forall>v.
           map (\<lambda>t. kwarg t ''crypto_fee'') (row_records self (line[i := v]))
             = [Some (strip (line ! 11))])"
proof -
  have upd: "map (\<lambda>t. kwarg t ''crypto_fee'') (row_records self (line[i := v]))
             = [Some (strip (line ! 11))]" if "i \<in> {15, 16, 17}" for i :: nat and v
  proof -
    from that have i: "i \<noteq> 3" "i \<noteq> 11" by auto
    have len: "12 \<le> length (line[i := v])" using assms(1) by simp
    have ty: "strip (line[i := v] ! 3) = ''Buy'' \<or> strip (line[i := v] ! 3) = ''Sell''"
      using assms(2) i by simp
    show ?thesis
      unfolding row_records_def loop_body_trade [OF len ty] using i by simp
  qed
  show ?thesis
    unfolding loop_body_trade [OF assms] using upd by simp
qed

text \<open>The purchase row: its fee is the 400.00 of column 11, not the 0.40 of column 17.\<close>

theorem trade_fee_is_base_asset_usd_value_witness:
  "12 \<le> length buy_row \<and> strip (buy_row ! 3) = ''Buy''
   \<and> (\<exists>kw. loop_body example_plugin buy_row ([], []) =
              ([LogCall DEBUG ''Transaction: %s'' [Str (join '','' buy_row)]],
               Inr [InTransaction kw])
        \<and> map_of kw ''crypto_fee'' = Some ''400.00''
        \<and> map_of kw ''fiat_fee'' = None)
   \<and> map (\<lambda>t. kwarg t ''crypto_fee'') (row_records example_plugin (buy_row[17 := ''9.99'']))
        = [Some ''400.00'']"
proof -
  have b: "12 \<le> length buy_row" "strip (buy_row ! 3) = ''Buy''"
    "strip (buy_row ! 11) = ''400.00''"
    by (simp_all add: buy_row_def strip_def isspace_def)
  have ty: "strip (buy_row ! 3) = ''Buy'' \<or> strip (buy_row ! 3) = ''Sell''"
    using b(2) by simp
  from trade_fee_is_base_asset_usd_value [OF b(1) ty, of example_plugin "[]" "[]"]
  obtain kw where kw: "loop_body example_plugin buy_row ([], []) =
              ([LogCall DEBUG ''Transaction: %s'' [Str (join '','' buy_row)]],
               Inr [InTransaction kw])"
        "map_of kw ''crypto_fee'' = Some ''400.00''"
        "map_of kw ''fiat_fee'' = None"
     and upd: "\<forall>i \<in> {15, 16, 17}. \<forall>v.
           map (\<lambda>t. kwarg t ''crypto_fee'') (row_records example_plugin (buy_row[i := v]))
             = [Some ''400.00'']"
    by (auto simp add: b)
  from upd have "map (\<lambda>t. kwarg t ''crypto_fee'') (row_records example_plugin (buy_row[17 := ''9.99'']))
        = [Some ''400.00'']"
    by simp
  with kw b show ?thesis by blast
qed

section \<open>Rows that yield no record\<close>

text \<open>
  C5. The specification lets the reporting currency given at construction decide which
  deposit type is skipped quietly, and has one debug-level call logged for such a row.
  Neither holds. A plugin built for EUR treats a row of type "EUR Deposit" as an unsupported type:
  after the trace of the row it logs an error, and no notice of a skipped deposit. And a
  "USD Deposit" row makes two debug-level calls, the trace every row gets and the notice.
\<close>

theorem fiat_deposit_override_counterexample:
  "strip (eur_deposit_row ! 3) = ''EUR Deposit''
   \<and> native_fiat (init ''https://example.org/issues'' ''bob'' ''binance.csv'' (Some ''EUR''))
        = Some ''EUR''
   \<and> loop_body (init ''https://example.org/issues'' ''bob'' ''binance.csv'' (Some ''EUR''))
        eur_deposit_row ([], []) =
       ([LogCall DEBUG ''Transaction: %s'' [Str (join '','' eur_deposit_row)],
         LogCall ERROR
           ''Unsupported transaction type (skipping): %s. Please open an issue at %s''
           [Str (join '','' eur_deposit_row), Str ''https://example.org/issues'']],
        Inr [])
   \<and> strip (usd_deposit_row ! 3) = ''USD Deposit''
   \<and> loop_body (init ''https://example.org/issues'' ''bob'' ''binance.csv'' None)
        usd_deposit_row ([], []) =
       ([LogCall DEBUG ''Transaction: %s'' [Str (join '','' usd_deposit_row)],
         LogCall DEBUG ''Skipping USD deposit %s'' [Str (join '','' usd_deposit_row)]],
        Inr [])"
proof -
  have e: "7 \<le> length eur_deposit_row" "strip (eur_deposit_row ! 3) = ''EUR Deposit''"
    by (simp_all add: eur_deposit_row_def strip_def isspace_def)
  have e': "strip (eur_deposit_row ! 3) \<notin> set [''Referral Commission'', ''Staking Rewards'',
      ''Crypto Deposit'', ''Crypto Withdrawal'', ''Buy'', ''Sell'', ''USD Deposit'']"
    unfolding e(2) by simp
  have u: "7 \<le> length usd_deposit_row" "strip (usd_deposit_row ! 3) = ''USD Deposit''"
    by (simp_all add: usd_deposit_row_def strip_def isspace_def)
  show ?thesis
    unfolding loop_body_unsupported [OF e(1) e'] loop_body_usd_deposit [OF u]
    by (simp add: e u init_def)
qed

text \<open>
  C5, as the code has it. A row whose transaction type is "USD Deposit" (with the seven
  fields every row is read for) appends no record, whatever reporting currency, if any, the
  plugin was built with: after the debug-level trace every row gets, one debug-level call
  "Skipping USD deposit" with the raw row is logged, and nothing at error level.
\<close>

theorem usd_deposit_row_skipped:
  assumes "7 \<le> length line" and "strip (line ! 3) = ''USD Deposit''"
  shows "loop_body (init issues_url holder csv_file fiat) line (lg, result) =
           (lg @ [LogCall DEBUG ''Transaction: %s'' [Str (join '','' line)],
                  LogCall DEBUG ''Skipping USD deposit %s'' [Str (join '','' line)]],
            Inr result)"
  using assms by (rule loop_body_usd_deposit)

text \<open>The deposit of 100 USD of the export, read by a plugin built for EUR.\<close>

theorem usd_deposit_row_skipped_witness:
  "7 \<le> length usd_deposit_row \<and> strip (usd_deposit_row ! 3) = ''USD Deposit''
   \<and> loop_body (init ''https://example.org/issues'' ''bob'' ''binance.csv'' (Some ''EUR''))
        usd_deposit_row ([], []) =
       ([LogCall DEBUG ''Transaction: %s'' [Str (join '','' usd_deposit_row)],
         LogCall DEBUG ''Skipping USD deposit %s'' [Str (join '','' usd_deposit_row)]],
        Inr [])"
proof -
  have u: "7 \<le> length usd_deposit_row" "strip (usd_deposit_row ! 3) = ''USD Deposit''"
    by (simp_all add: usd_deposit_row_def strip_def isspace_def)
  show ?thesis
    using usd_deposit_row_skipped [OF u, of "''https://example.org/issues''" "''bob''"
        "''binance.csv''" "Some ''EUR''" "[]" "[]"] u
    by simp
qed

text \<open>
  C6. A row whose transaction type is none of the seven literals the loop tests for (with
  the seven fields every row is read for) appends no record. After the trace of the row,
  exactly one call at error level is logged; its arguments are the raw row and the address
  for issues. The loop then goes on with the rows that follow, from the same result list.
\<close>

theorem unsupported_row_skipped:
  assumes "7 \<le> length line"
    and "strip (line ! 3) \<notin> set [''Referral Commission'', ''Staking Rewards'', ''Crypto Deposit'',
           ''Crypto Withdrawal'', ''Buy'', ''Sell'', ''USD Deposit'']"
  shows "loop_body self line (lg, result) =
           (lg @ [LogCall DEBUG ''Transaction: %s'' [Str (join '','' line)],
                  LogCall ERROR
                    ''Unsupported transaction type (skipping): %s. Please open an issue at %s''
                    [Str (join '','' line), Str (ISSUES_URL self)]],
            Inr result)
       \<and> for_lines self (line # lines) (lg, result) =
           for_lines self lines
             (lg @ [LogCall DEBUG ''Transaction: %s'' [Str (join '','' line)],
                    LogCall ERROR
                      ''Unsupported transaction type (skipping): %s. Please open an issue at %s''
                      [Str (join '','' line), Str (ISSUES_URL self)]],
              result)"
  by (simp add: loop_body_unsupported [OF assms])

text \<open>
  A row of type "Others" between the staking row and the deposit: the file loads, the
  two records on either side are returned, and the row is in the arguments of one error.
\<close>

theorem unsupported_row_skipped_witness:
  "7 \<le> length others_row
   \<and> strip (others_row ! 3) \<notin> set [''Referral Commission'', ''Staking Rewards'',
         ''Crypto Deposit'', ''Crypto Withdrawal'', ''Buy'', ''Sell'', ''USD Deposit'']
   \<and> loop_body example_plugin others_row ([], []) =
       ([LogCall DEBUG ''Transaction: %s'' [Str (join '','' others_row)],
         LogCall ERROR
           ''Unsupported transaction type (skipping): %s. Please open an issue at %s''
           [Str (join '','' others_row), Str ''https://example.org/issues'']],
        Inr [])
   \<and> snd (load example_plugin [''binance.csv'' \<mapsto> [header_row, staking_row, others_row, deposit_row]])
       = Inr (row_records example_plugin staking_row @ row_records example_plugin deposit_row)"
proof -
  have o: "7 \<le> length others_row"
    "strip (others_row ! 3) \<notin> set [''Referral Commission'', ''Staking Rewards'',
         ''Crypto Deposit'', ''Crypto Withdrawal'', ''Buy'', ''Sell'', ''USD Deposit'']"
    by (simp_all add: others_row_def strip_def isspace_def)
  have wf: "\<forall>line \<in> set [staking_row, others_row, deposit_row].
      required_fields line \<le> length line"
    by (simp add: staking_row_def others_row_def deposit_row_def required_fields_def
        strip_def isspace_def index_defs type_defs)
  have u: "ISSUES_URL example_plugin = ''https://example.org/issues''"
    "transaction_csv_file example_plugin = ''binance.csv''"
    by (simp_all add: example_plugin_def init_def)
  note skip = unsupported_row_skipped [OF o, of example_plugin]
  have none: "row_records example_plugin others_row = []"
    using skip [of "[]" "[]"] by (simp add: row_records_def)
  from for_lines_wellformed [OF wf, of example_plugin
      "[LogCall DEBUG ''Header: %s'' [StrList header_row]]" "[]"]
  have "snd (load example_plugin [''binance.csv'' \<mapsto> [header_row, staking_row, others_row, deposit_row]])
       = Inr (row_records example_plugin staking_row @ row_records example_plugin deposit_row)"
    by (auto simp add: load_def u none)
  moreover have "loop_body example_plugin others_row ([], []) =
       ([LogCall DEBUG ''Transaction: %s'' [Str (join '','' others_row)],
         LogCall ERROR
           ''Unsupported transaction type (skipping): %s. Please open an issue at %s''
           [Str (join '','' others_row), Str ''https://example.org/issues'']],
        Inr [])"
    using skip [of "[]" "[]"] by (simp add: u)
  ultimately show ?thesis using o by blast
qed

section \<open>The whole load\<close>

lemma load_Inr:
  assumes "load self fs = (lg, Inr result)"
  shows "\<exists>header rows. fs (transaction_csv_file self) = Some (header # rows)
     \<and> (\<forall>line \<in> set rows. required_fields line \<le> length line)
     \<and> result = concat (map (row_records self) rows)"
proof (cases "fs (transaction_csv_file self)")
  case None
  with assms show ?thesis by (simp add: load_def)
next
  case (Some content)
  show ?thesis
  proof (cases content)
    case Nil
    with Some assms show ?thesis by (simp add: load_def)
  next
    case (Cons header rows)
    with Some assms
    have "for_lines self rows ([LogCall DEBUG ''Header: %s'' [StrList header]], []) = (lg, Inr result)"
      by (simp add: load_def)
    from for_lines_records [OF this] Some Cons show ?thesis by simp
  qed
qed

text \<open>
  C7. Every transaction in the list \<open>load\<close> returns, whichever class it belongs to, was
  appended for some data row of the file, and its common arguments are derived from that
  row in one way: the timestamp is the timestamp field (index 1, surrounding whitespace
  removed, as every field is read) followed by " -00:00", the raw data is the fields of
  the row joined by commas, the unique id is the transaction-id field (index 5), the note
  is the category (index 2), " - " and the transaction type (index 3), and the plugin is
  the name of the exchange.
\<close>

theorem common_attributes_of_every_record:
  assumes "load self fs = (lg, Inr result)" and "t \<in> set result"
  shows "\<exists>header rows line. fs (transaction_csv_file self) = Some (header # rows)
     \<and> line \<in> set rows
     \<and> t \<in> set (row_records self line)
     \<and> kwarg t ''timestamp'' = Some (strip (line ! 1) @ '' -00:00'')
     \<and> kwarg t ''raw_data'' = Some (join '','' line)
     \<and> kwarg t ''unique_id'' = Some (strip (line ! 5))
     \<and> kwarg t ''notes'' = Some (strip (line ! 2) @ '' - '' @ strip (line ! 3))
     \<and> kwarg t ''plugin'' = Some ''Binance.us''"
proof -
  from load_Inr [OF assms(1)] obtain header rows
    where path: "fs (transaction_csv_file self) = Some (header # rows)"
      and wf: "\<forall>line \<in> set rows. required_fields line \<le> length line"
      and res: "result = concat (map (row_records self) rows)"
    by blast
  from assms(2) res obtain line where line: "line \<in> set rows" "t \<in> set (row_records self line)"
    by auto
  from wf line(1) have "required_fields line \<le> length line" by blast
  from loop_body_wellformed [OF this, of self "[]" "[]"] line(2)
  have "kwarg t ''timestamp'' = Some (strip (line ! 1) @ '' -00:00'')
     \<and> kwarg t ''raw_data'' = Some (join '','' line)
     \<and> kwarg t ''unique_id'' = Some (strip (line ! 5))
     \<and> kwarg t ''notes'' = Some (strip (line ! 2) @ '' - '' @ strip (line ! 3))
     \<and> kwarg t ''plugin'' = Some ''Binance.us''"
    by blast
  with path line show ?thesis by blast
qed


text \<open>A file with the deposit row alone: the one transfer returned carries the five.\<close>

theorem common_attributes_of_every_record_witness:
  "snd (load example_plugin [''binance.csv'' \<mapsto> [header_row, deposit_row]])
     = Inr (row_records example_plugin deposit_row)
   \<and> row_records example_plugin deposit_row =
       [IntraTransaction
          [(''plugin'', ''Binance.us''),
           (''unique_id'', ''TX4''),
           (''raw_data'', join '','' deposit_row),
           (''timestamp'', ''2022-01-04 12:00:00 -00:00''),
           (''notes'', ''Deposit - Crypto Deposit''),
           (''asset'', ''ETH''),
           (''crypto_sent'', ''0''),
           (''crypto_received'', ''1.5''),
           (''spot_price'', ''4500.00''),
           (''from_exchange'', ''unknown''),
           (''from_holder'', ''unknown''),
           (''to_exchange'', ''Binance.us''),
           (''to_holder'', ''bob'')]]
   \<and> kwarg (hd (row_records example_plugin deposit_row)) ''timestamp''
       = Some (strip (deposit_row ! 1) @ '' -00:00'')
   \<and> kwarg (hd (row_records example_plugin deposit_row)) ''raw_data''
       = Some (join '','' deposit_row)
   \<and> kwarg (hd (row_records example_plugin deposit_row)) ''unique_id''
       = Some (strip (deposit_row ! 5))
   \<and> kwarg (hd (row_records example_plugin deposit_row)) ''notes''
       = Some (strip (deposit_row ! 2) @ '' - '' @ strip (deposit_row ! 3))
   \<and> kwarg (hd (row_records example_plugin deposit_row)) ''plugin'' = Some ''Binance.us''"
proof -
  have d: "9 \<le> length deposit_row" "strip (deposit_row ! 3) = ''Crypto Deposit''"
    by (simp_all add: deposit_row_def strip_def isspace_def)
  have f: "strip (deposit_row ! Suc 0) = ''2022-01-04 12:00:00''"
    "strip (deposit_row ! 2) = ''Deposit''" "strip (deposit_row ! 5) = ''TX4''"
    "strip (deposit_row ! 6) = ''ETH''" "strip (deposit_row ! 7) = ''1.5''"
    "strip (deposit_row ! 8) = ''4500.00''"
    by (simp_all add: deposit_row_def strip_def isspace_def)
  have u: "account_holder example_plugin = ''bob''"
    "transaction_csv_file example_plugin = ''binance.csv''"
    by (simp_all add: example_plugin_def init_def)
  have wf: "\<forall>line \<in> set [deposit_row]. required_fields line \<le> length line"
    by (simp add: deposit_row_def required_fields_def strip_def isspace_def index_defs type_defs)
  from for_lines_wellformed [OF wf, of example_plugin
      "[LogCall DEBUG ''Header: %s'' [StrList header_row]]" "[]"]
  obtain lg where ld: "load example_plugin [''binance.csv'' \<mapsto> [header_row, deposit_row]]
       = (lg, Inr (row_records example_plugin deposit_row))"
    by (auto simp add: load_def u)
  have rec: "row_records example_plugin deposit_row =
       [IntraTransaction
          [(''plugin'', ''Binance.us''),
           (''unique_id'', ''TX4''),
           (''raw_data'', join '','' deposit_row),
           (''timestamp'', ''2022-01-04 12:00:00 -00:00''),
           (''notes'', ''Deposit - Crypto Deposit''),
           (''asset'', ''ETH''),
           (''crypto_sent'', ''0''),
           (''crypto_received'', ''1.5''),
           (''spot_price'', ''4500.00''),
           (''from_exchange'', ''unknown''),
           (''from_holder'', ''unknown''),
           (''to_exchange'', ''Binance.us''),
           (''to_holder'', ''bob'')]]"
    unfolding row_records_def loop_body_deposit [OF d] by (simp add: d f u)
  have mem: "hd (row_records example_plugin deposit_row) \<in> set (row_records example_plugin deposit_row)"
    unfolding rec by simp
  from common_attributes_of_every_record [OF ld mem]
  have "kwarg (hd (row_records example_plugin deposit_row)) ''timestamp''
       = Some (strip (deposit_row ! 1) @ '' -00:00'')
   \<and> kwarg (hd (row_records example_plugin deposit_row)) ''raw_data''
       = Some (join '','' deposit_row)
   \<and> kwarg (hd (row_records example_plugin deposit_row)) ''unique_id''
       = Some (strip (deposit_row ! 5))
   \<and> kwarg (hd (row_records example_plugin deposit_row)) ''notes''
       = Some (strip (deposit_row ! 2) @ '' - '' @ strip (deposit_row ! 3))
   \<and> kwarg (hd (row_records example_plugin deposit_row)) ''plugin'' = Some ''Binance.us''"
    by (auto simp add: u)
  with ld rec show ?thesis by simp
qed

text \<open>
  C8. When \<open>load\<close> returns a list, the list is the concatenation, in the order of the data
  rows of the file, of what each row contributes; a row contributes one transaction or
  none, and what it contributes is what the loop body appends for it, whatever was
  collected before. So the records come in row order, and a row that yields nothing
  leaves no entry.
\<close>

theorem load_records_in_row_order:
  assumes "load self fs = (lg, Inr result)"
  shows "\<exists>header rows. fs (transaction_csv_file self) = Some (header # rows)
     \<and> result = concat (map (row_records self) rows)
     \<and> (\<forall>line \<in> set rows. length (row_records self line) \<le> 1
           \<and> (\<forall>lg0 result0. snd (loop_body self line (lg0, result0))
                  = Inr (result0 @ row_records self line)))"
proof -
  from load_Inr [OF assms] obtain header rows
    where path: "fs (transaction_csv_file self) = Some (header # rows)"
      and wf: "\<forall>line \<in> set rows. required_fields line \<le> length line"
      and res: "result = concat (map (row_records self) rows)"
    by blast
  have "length (row_records self line) \<le> 1
      \<and> (\<forall>lg0 result0. snd (loop_body self line (lg0, result0))
                  = Inr (result0 @ row_records self line))" if "line \<in> set rows" for line
  proof -
    from wf that have ok: "required_fields line \<le> length line" by blast
    have "snd (loop_body self line (lg0, result0)) = Inr (result0 @ row_records self line)"
      for lg0 result0
      using loop_body_wellformed [OF ok, of self lg0 result0] by simp
    moreover have "length (row_records self line) \<le> 1"
      using loop_body_wellformed [OF ok, of self "[]" "[]"] by blast
    ultimately show ?thesis by blast
  qed
  with path res show ?thesis by blast
qed

text \<open>
  A file of five data rows: a staking reward, a deposit of USD, a row of type "Others",
  a crypto deposit and a purchase. Three records come back, in that order.
\<close>

theorem load_records_in_row_order_witness:
  "snd (load example_plugin
       [''binance.csv'' \<mapsto>
          [header_row, staking_row, usd_deposit_row, others_row, deposit_row, buy_row]])
     = Inr (row_records example_plugin staking_row @ row_records example_plugin deposit_row
            @ row_records example_plugin buy_row)
   \<and> map (\<lambda>t. kwarg t ''unique_id'') (row_records example_plugin staking_row) = [Some ''TX1'']
   \<and> row_records example_plugin usd_deposit_row = []
   \<and> row_records example_plugin others_row = []
   \<and> map (\<lambda>t. kwarg t ''unique_id'') (row_records example_plugin deposit_row) = [Some ''TX4'']
   \<and> map (\<lambda>t. kwarg t ''unique_id'') (row_records example_plugin buy_row) = [Some ''TX6'']"
proof -
  have u: "transaction_csv_file example_plugin = ''binance.csv''"
    by (simp add: example_plugin_def init_def)
  have wf: "\<forall>line \<in> set [staking_row, usd_deposit_row, others_row, deposit_row, buy_row].
      required_fields line \<le> length line"
    by (simp add: staking_row_def usd_deposit_row_def others_row_def deposit_row_def buy_row_def
        required_fields_def strip_def isspace_def index_defs type_defs)
  have s: "9 \<le> length staking_row"
    "strip (staking_row ! 3) = ''Referral Commission'' \<or> strip (staking_row ! 3) = ''Staking Rewards''"
    "strip (staking_row ! 5) = ''TX1''"
    by (simp_all add: staking_row_def strip_def isspace_def)
  have d: "9 \<le> length deposit_row" "strip (deposit_row ! 3) = ''Crypto Deposit''"
    "strip (deposit_row ! 5) = ''TX4''"
    by (simp_all add: deposit_row_def strip_def isspace_def)
  have b: "12 \<le> length buy_row" "strip (buy_row ! 3) = ''Buy'' \<or> strip (buy_row ! 3) = ''Sell''"
    "strip (buy_row ! 5) = ''TX6''"
    by (simp_all add: buy_row_def strip_def isspace_def)
  have usd: "7 \<le> length usd_deposit_row" "strip (usd_deposit_row ! 3) = ''USD Deposit''"
    by (simp_all add: usd_deposit_row_def strip_def isspace_def)
  have o: "7 \<le> length others_row"
    "strip (others_row ! 3) \<notin> set [''Referral Commission'', ''Staking Rewards'',
         ''Crypto Deposit'', ''Crypto Withdrawal'', ''Buy'', ''Sell'', ''USD Deposit'']"
    by (simp_all add: others_row_def strip_def isspace_def)
  have r1: "map (\<lambda>t. kwarg t ''unique_id'') (row_records example_plugin staking_row) = [Some ''TX1'']"
    unfolding row_records_def loop_body_reward [OF s(1,2)] by (simp add: s(3))
  have r2: "row_records example_plugin usd_deposit_row = []"
    unfolding row_records_def loop_body_usd_deposit [OF usd] by simp
  have r3: "row_records example_plugin others_row = []"
    unfolding row_records_def loop_body_unsupported [OF o] by simp
  have r4: "map (\<lambda>t. kwarg t ''unique_id'') (row_records example_plugin deposit_row) = [Some ''TX4'']"
    unfolding row_records_def loop_body_deposit [OF d(1,2)] by (simp add: d(3))
  have r5: "map (\<lambda>t. kwarg t ''unique_id'') (row_records example_plugin buy_row) = [Some ''TX6'']"
    unfolding row_records_def loop_body_trade [OF b(1,2)] by (simp add: b(3))
  from for_lines_wellformed [OF wf, of example_plugin
      "[LogCall DEBUG ''Header: %s'' [StrList header_row]]" "[]"]
  obtain lg result where ld: "load example_plugin
       [''binance.csv'' \<mapsto>
          [header_row, staking_row, usd_deposit_row, others_row, deposit_row, buy_row]]
       = (lg, Inr result)"
    by (auto simp add: load_def u)
  from load_records_in_row_order [OF ld]
  have "result = row_records example_plugin staking_row @ row_records example_plugin deposit_row
            @ row_records example_plugin buy_row"
    by (auto simp add: u r2 r3)
  with ld r1 r2 r3 r4 r5 show ?thesis by simp
qed

text \<open>
  C9. If some data row of the file has fewer fields than the rule it matches reads, \<open>load\<close>
  raises \<open>IndexError\<close>: the caller gets the exception and no list, whatever the rows before
  had contributed.
\<close>

theorem malformed_row_aborts_load:
  assumes "fs (transaction_csv_file self) = Some (header # rows)"
    and "line \<in> set rows"
    and "length line < required_fields line"
  shows "snd (load self fs) = Inl IndexError"
  using assms by (simp add: load_def for_lines_malformed)

text \<open>
  A staking row cut after its eighth field, between two rows that are in order: the
  record of the first row is not returned.
\<close>

theorem malformed_row_aborts_load_witness:
  "length short_staking_row = 8 \<and> required_fields short_staking_row = 9
   \<and> length (row_records example_plugin staking_row) = 1
   \<and> snd (load example_plugin
        [''binance.csv'' \<mapsto> [header_row, staking_row, short_staking_row, deposit_row]])
       = Inl IndexError"
proof -
  have u: "transaction_csv_file example_plugin = ''binance.csv''"
    by (simp add: example_plugin_def init_def)
  have m: "length short_staking_row = 8" "required_fields short_staking_row = 9"
    by (simp_all add: short_staking_row_def required_fields_def strip_def isspace_def
        index_defs type_defs)
  have s: "9 \<le> length staking_row"
    "strip (staking_row ! 3) = ''Referral Commission'' \<or> strip (staking_row ! 3) = ''Staking Rewards''"
    by (simp_all add: staking_row_def strip_def isspace_def)
  have r: "length (row_records example_plugin staking_row) = 1"
    unfolding row_records_def loop_body_reward [OF s] by simp
  have "snd (load example_plugin
        [''binance.csv'' \<mapsto> [header_row, staking_row, short_staking_row, deposit_row]])
       = Inl IndexError"
    by (rule malformed_row_aborts_load [where line = short_staking_row and header = header_row
          and rows = "[staking_row, short_staking_row, deposit_row]"])
       (simp_all add: u m)
  with m r show ?thesis by simp
qed

text \<open>
  C10. The loop body reads the fields at indices 5, 3, 2, 6 and 1 before it looks at the
  transaction type. A data row with fewer than seven fields therefore makes \<open>load\<close> raise
  \<open>IndexError\<close> whatever its type is, also a type that would have been skipped without
  a record: for such a row only the trace is logged, no notice of a skipped deposit and no
  error about an unsupported type.
\<close>

theorem short_row_aborts_before_classification:
  assumes "fs (transaction_csv_file self) = Some (header # rows)"
    and "line \<in> set rows"
    and "length line < 7"
  shows "snd (load self fs) = Inl IndexError
     \<and> loop_body self line (lg, result) =
         (lg @ [LogCall DEBUG ''Transaction: %s'' [Str (join '','' line)]], Inl IndexError)"
proof -
  from assms(3) have "length line < required_fields line"
    by (simp add: required_fields_def)
  with assms(1,2) have "snd (load self fs) = Inl IndexError"
    by (simp add: load_def for_lines_malformed)
  with assms(3) show ?thesis
    by (simp add: loop_body_short)
qed

text \<open>A deposit of USD cut after its fifth field, as the only data row.\<close>

theorem short_row_aborts_before_classification_witness:
  "length short_usd_deposit_row = 5 \<and> strip (short_usd_deposit_row ! 3) = ''USD Deposit''
   \<and> load example_plugin [''binance.csv'' \<mapsto> [header_row, short_usd_deposit_row]] =
       ([LogCall DEBUG ''Header: %s'' [StrList header_row],
         LogCall DEBUG ''Transaction: %s'' [Str (join '','' short_usd_deposit_row)]],
        Inl IndexError)"
proof -
  have u: "transaction_csv_file example_plugin = ''binance.csv''"
    by (simp add: example_plugin_def init_def)
  have m: "length short_usd_deposit_row = 5" "strip (short_usd_deposit_row ! 3) = ''USD Deposit''"
    by (simp_all add: short_usd_deposit_row_def strip_def isspace_def)
  have "loop_body example_plugin short_usd_deposit_row
          ([LogCall DEBUG ''Header: %s'' [StrList header_row]], []) =
         ([LogCall DEBUG ''Header: %s'' [StrList header_row]]
            @ [LogCall DEBUG ''Transaction: %s'' [Str (join '','' short_usd_deposit_row)]],
          Inl IndexError)"
    using short_row_aborts_before_classification [where line = short_usd_deposit_row
        and header = header_row and rows = "[short_usd_deposit_row]" and self = example_plugin
        and fs = "[''binance.csv'' \<mapsto> [header_row, short_usd_deposit_row]]"]
    by (simp add: u m)
  with m show ?thesis
    by (simp add: load_def u)
qed

end
